theory Spec2Isabelle
  imports Complex_Main
begin

text \<open>
  The repository holds no executable code: it is a set of ambient TypeScript declarations
  (\<^verbatim>\<open>src/structure.ts\<close> and the bundled \<^verbatim>\<open>dist/index.d.ts\<close>) for the objects a game server
  exposes to player scripts. The development below embeds the declarations themselves:
  literal type aliases as constants with their values, unions as the lists of their members,
  interfaces as lists of members with inheritance, conditional and mapped types as functions
  of their type parameters, and the result codes that documentation comments enumerate as a
  table. The theorems are statements about these declarations.
\<close>

section \<open>Return codes\<close>

text \<open>
  A literal type alias such as
  \<^verbatim>\<open>type ERR_BUSY = -4;\<close> is modelled by a constructor of \<open>return_code\<close> (the alias
  name) together with \<open>return_code_value\<close> (the literal the alias stands for).
\<close>

datatype return_code =
    OK
  | ERR_NOT_OWNER
  | ERR_NO_PATH
  | ERR_NAME_EXISTS
  | ERR_BUSY
  | ERR_NOT_FOUND
  | ERR_NOT_ENOUGH_RESOURCES
  | ERR_NOT_ENOUGH_ENERGY
  | ERR_INVALID_TARGET
  | ERR_FULL
  | ERR_NOT_IN_RANGE
  | ERR_INVALID_ARGS
  | ERR_TIRED
  | ERR_NO_BODYPART
  | ERR_NOT_ENOUGH_EXTENSIONS
  | ERR_RCL_NOT_ENOUGH
  | ERR_GCL_NOT_ENOUGH

fun return_code_value :: "return_code \<Rightarrow> int" where
  "return_code_value OK = 0"
| "return_code_value ERR_NOT_OWNER = -1"
| "return_code_value ERR_NO_PATH = -2"
| "return_code_value ERR_NAME_EXISTS = -3"
| "return_code_value ERR_BUSY = -4"
| "return_code_value ERR_NOT_FOUND = -5"
| "return_code_value ERR_NOT_ENOUGH_RESOURCES = -6"
| "return_code_value ERR_NOT_ENOUGH_ENERGY = -6"
| "return_code_value ERR_INVALID_TARGET = -7"
| "return_code_value ERR_FULL = -8"
| "return_code_value ERR_NOT_IN_RANGE = -9"
| "return_code_value ERR_INVALID_ARGS = -10"
| "return_code_value ERR_TIRED = -11"
| "return_code_value ERR_NO_BODYPART = -12"
| "return_code_value ERR_NOT_ENOUGH_EXTENSIONS = -6"
| "return_code_value ERR_RCL_NOT_ENOUGH = -14"
| "return_code_value ERR_GCL_NOT_ENOUGH = -15"

section \<open>Structure-type tags\<close>

text \<open>
  The 21 string literal types \<^verbatim>\<open>type STRUCTURE_EXTENSION = "extension";\<close> and so on, in the
  order of their declaration. Every one of them is a member of the union
  \<^verbatim>\<open>StructureConstant\<close>, the bound of the type parameter \<open>T\<close> of the structure interfaces.
\<close>

datatype structure_constant =
    STRUCTURE_EXTENSION
  | STRUCTURE_RAMPART
  | STRUCTURE_ROAD
  | STRUCTURE_SPAWN
  | STRUCTURE_LINK
  | STRUCTURE_WALL
  | STRUCTURE_KEEPER_LAIR
  | STRUCTURE_CONTROLLER
  | STRUCTURE_STORAGE
  | STRUCTURE_TOWER
  | STRUCTURE_OBSERVER
  | STRUCTURE_POWER_BANK
  | STRUCTURE_POWER_SPAWN
  | STRUCTURE_EXTRACTOR
  | STRUCTURE_LAB
  | STRUCTURE_TERMINAL
  | STRUCTURE_CONTAINER
  | STRUCTURE_NUKER
  | STRUCTURE_FACTORY
  | STRUCTURE_INVADER_CORE
  | STRUCTURE_PORTAL

fun structure_constant_value :: "structure_constant \<Rightarrow> string" where
  "structure_constant_value STRUCTURE_EXTENSION = ''extension''"
| "structure_constant_value STRUCTURE_RAMPART = ''rampart''"
| "structure_constant_value STRUCTURE_ROAD = ''road''"
| "structure_constant_value STRUCTURE_SPAWN = ''spawn''"
| "structure_constant_value STRUCTURE_LINK = ''link''"
| "structure_constant_value STRUCTURE_WALL = ''constructedWall''"
| "structure_constant_value STRUCTURE_KEEPER_LAIR = ''keeperLair''"
| "structure_constant_value STRUCTURE_CONTROLLER = ''controller''"
| "structure_constant_value STRUCTURE_STORAGE = ''storage''"
| "structure_constant_value STRUCTURE_TOWER = ''tower''"
| "structure_constant_value STRUCTURE_OBSERVER = ''observer''"
| "structure_constant_value STRUCTURE_POWER_BANK = ''powerBank''"
| "structure_constant_value STRUCTURE_POWER_SPAWN = ''powerSpawn''"
| "structure_constant_value STRUCTURE_EXTRACTOR = ''extractor''"
| "structure_constant_value STRUCTURE_LAB = ''lab''"
| "structure_constant_value STRUCTURE_TERMINAL = ''terminal''"
| "structure_constant_value STRUCTURE_CONTAINER = ''container''"
| "structure_constant_value STRUCTURE_NUKER = ''nuker''"
| "structure_constant_value STRUCTURE_FACTORY = ''factory''"
| "structure_constant_value STRUCTURE_INVADER_CORE = ''invaderCore''"
| "structure_constant_value STRUCTURE_PORTAL = ''portal''"

definition BuildableStructureConstant :: "structure_constant list" where
  "BuildableStructureConstant =
     [STRUCTURE_EXTENSION, STRUCTURE_RAMPART, STRUCTURE_ROAD, STRUCTURE_SPAWN, STRUCTURE_LINK,
      STRUCTURE_WALL, STRUCTURE_STORAGE, STRUCTURE_TOWER, STRUCTURE_OBSERVER,
      STRUCTURE_POWER_SPAWN, STRUCTURE_EXTRACTOR, STRUCTURE_LAB, STRUCTURE_TERMINAL,
      STRUCTURE_CONTAINER, STRUCTURE_NUKER, STRUCTURE_FACTORY]"

definition StructureConstant :: "structure_constant list" where
  "StructureConstant =
     BuildableStructureConstant @
     [STRUCTURE_KEEPER_LAIR, STRUCTURE_CONTROLLER, STRUCTURE_POWER_BANK, STRUCTURE_PORTAL,
      STRUCTURE_INVADER_CORE]"

section \<open>Market constants\<close>

text \<open>
  \<^verbatim>\<open>declare const MARKET_FEE: 0.05;\<close> and
  \<^verbatim>\<open>declare const MARKET_ORDER_LIFE_TIME: 2592000000; // 1000*60*60*24*30\<close>.
  The numeric literals are kept as the exact numbers they denote.
\<close>

definition MARKET_FEE :: rat where
  "MARKET_FEE = 0.05"

definition MARKET_ORDER_LIFE_TIME :: int where
  "MARKET_ORDER_LIFE_TIME = 2592000000"

section \<open>Resource constants\<close>

text \<open>
  The resource tags are string literal types; a union of them is the list of its members in
  the order the declaration writes them, an alias inside a union being spliced in.
\<close>

definition RESOURCE_ENERGY :: string where "RESOURCE_ENERGY = ''energy''"
definition RESOURCE_POWER :: string where "RESOURCE_POWER = ''power''"
definition RESOURCE_OPS :: string where "RESOURCE_OPS = ''ops''"
definition RESOURCE_BIOMASS :: string where "RESOURCE_BIOMASS = ''biomass''"
definition RESOURCE_METAL :: string where "RESOURCE_METAL = ''metal''"
definition RESOURCE_MIST :: string where "RESOURCE_MIST = ''mist''"
definition RESOURCE_SILICON :: string where "RESOURCE_SILICON = ''silicon''"
definition RESOURCE_UTRIUM :: string where "RESOURCE_UTRIUM = ''U''"
definition RESOURCE_LEMERGIUM :: string where "RESOURCE_LEMERGIUM = ''L''"
definition RESOURCE_KEANIUM :: string where "RESOURCE_KEANIUM = ''K''"
definition RESOURCE_ZYNTHIUM :: string where "RESOURCE_ZYNTHIUM = ''Z''"
definition RESOURCE_OXYGEN :: string where "RESOURCE_OXYGEN = ''O''"
definition RESOURCE_HYDROGEN :: string where "RESOURCE_HYDROGEN = ''H''"
definition RESOURCE_CATALYST :: string where "RESOURCE_CATALYST = ''X''"
definition RESOURCE_HYDROXIDE :: string where "RESOURCE_HYDROXIDE = ''OH''"
definition RESOURCE_ZYNTHIUM_KEANITE :: string where "RESOURCE_ZYNTHIUM_KEANITE = ''ZK''"
definition RESOURCE_UTRIUM_LEMERGITE :: string where "RESOURCE_UTRIUM_LEMERGITE = ''UL''"
definition RESOURCE_GHODIUM :: string where "RESOURCE_GHODIUM = ''G''"
definition RESOURCE_UTRIUM_HYDRIDE :: string where "RESOURCE_UTRIUM_HYDRIDE = ''UH''"
definition RESOURCE_UTRIUM_OXIDE :: string where "RESOURCE_UTRIUM_OXIDE = ''UO''"
definition RESOURCE_KEANIUM_HYDRIDE :: string where "RESOURCE_KEANIUM_HYDRIDE = ''KH''"
definition RESOURCE_KEANIUM_OXIDE :: string where "RESOURCE_KEANIUM_OXIDE = ''KO''"
definition RESOURCE_LEMERGIUM_HYDRIDE :: string where "RESOURCE_LEMERGIUM_HYDRIDE = ''LH''"
definition RESOURCE_LEMERGIUM_OXIDE :: string where "RESOURCE_LEMERGIUM_OXIDE = ''LO''"
definition RESOURCE_ZYNTHIUM_HYDRIDE :: string where "RESOURCE_ZYNTHIUM_HYDRIDE = ''ZH''"
definition RESOURCE_ZYNTHIUM_OXIDE :: string where "RESOURCE_ZYNTHIUM_OXIDE = ''ZO''"
definition RESOURCE_GHODIUM_HYDRIDE :: string where "RESOURCE_GHODIUM_HYDRIDE = ''GH''"
definition RESOURCE_GHODIUM_OXIDE :: string where "RESOURCE_GHODIUM_OXIDE = ''GO''"
definition RESOURCE_UTRIUM_ACID :: string where "RESOURCE_UTRIUM_ACID = ''UH2O''"
definition RESOURCE_UTRIUM_ALKALIDE :: string where "RESOURCE_UTRIUM_ALKALIDE = ''UHO2''"
definition RESOURCE_KEANIUM_ACID :: string where "RESOURCE_KEANIUM_ACID = ''KH2O''"
definition RESOURCE_KEANIUM_ALKALIDE :: string where "RESOURCE_KEANIUM_ALKALIDE = ''KHO2''"
definition RESOURCE_LEMERGIUM_ACID :: string where "RESOURCE_LEMERGIUM_ACID = ''LH2O''"
definition RESOURCE_LEMERGIUM_ALKALIDE :: string where "RESOURCE_LEMERGIUM_ALKALIDE = ''LHO2''"
definition RESOURCE_ZYNTHIUM_ACID :: string where "RESOURCE_ZYNTHIUM_ACID = ''ZH2O''"
definition RESOURCE_ZYNTHIUM_ALKALIDE :: string where "RESOURCE_ZYNTHIUM_ALKALIDE = ''ZHO2''"
definition RESOURCE_GHODIUM_ACID :: string where "RESOURCE_GHODIUM_ACID = ''GH2O''"
definition RESOURCE_GHODIUM_ALKALIDE :: string where "RESOURCE_GHODIUM_ALKALIDE = ''GHO2''"
definition RESOURCE_CATALYZED_UTRIUM_ACID :: string where "RESOURCE_CATALYZED_UTRIUM_ACID = ''XUH2O''"
definition RESOURCE_CATALYZED_UTRIUM_ALKALIDE :: string where "RESOURCE_CATALYZED_UTRIUM_ALKALIDE = ''XUHO2''"
definition RESOURCE_CATALYZED_KEANIUM_ACID :: string where "RESOURCE_CATALYZED_KEANIUM_ACID = ''XKH2O''"
definition RESOURCE_CATALYZED_KEANIUM_ALKALIDE :: string where "RESOURCE_CATALYZED_KEANIUM_ALKALIDE = ''XKHO2''"
definition RESOURCE_CATALYZED_LEMERGIUM_ACID :: string where "RESOURCE_CATALYZED_LEMERGIUM_ACID = ''XLH2O''"
definition RESOURCE_CATALYZED_LEMERGIUM_ALKALIDE :: string where "RESOURCE_CATALYZED_LEMERGIUM_ALKALIDE = ''XLHO2''"
definition RESOURCE_CATALYZED_ZYNTHIUM_ACID :: string where "RESOURCE_CATALYZED_ZYNTHIUM_ACID = ''XZH2O''"
definition RESOURCE_CATALYZED_ZYNTHIUM_ALKALIDE :: string where "RESOURCE_CATALYZED_ZYNTHIUM_ALKALIDE = ''XZHO2''"
definition RESOURCE_CATALYZED_GHODIUM_ACID :: string where "RESOURCE_CATALYZED_GHODIUM_ACID = ''XGH2O''"
definition RESOURCE_CATALYZED_GHODIUM_ALKALIDE :: string where "RESOURCE_CATALYZED_GHODIUM_ALKALIDE = ''XGHO2''"
definition RESOURCE_UTRIUM_BAR :: string where "RESOURCE_UTRIUM_BAR = ''utrium_bar''"
definition RESOURCE_LEMERGIUM_BAR :: string where "RESOURCE_LEMERGIUM_BAR = ''lemergium_bar''"
definition RESOURCE_ZYNTHIUM_BAR :: string where "RESOURCE_ZYNTHIUM_BAR = ''zynthium_bar''"
definition RESOURCE_KEANIUM_BAR :: string where "RESOURCE_KEANIUM_BAR = ''keanium_bar''"
definition RESOURCE_GHODIUM_MELT :: string where "RESOURCE_GHODIUM_MELT = ''ghodium_melt''"
definition RESOURCE_OXIDANT :: string where "RESOURCE_OXIDANT = ''oxidant''"
definition RESOURCE_REDUCTANT :: string where "RESOURCE_REDUCTANT = ''reductant''"
definition RESOURCE_PURIFIER :: string where "RESOURCE_PURIFIER = ''purifier''"
definition RESOURCE_BATTERY :: string where "RESOURCE_BATTERY = ''battery''"
definition RESOURCE_COMPOSITE :: string where "RESOURCE_COMPOSITE = ''composite''"
definition RESOURCE_CRYSTAL :: string where "RESOURCE_CRYSTAL = ''crystal''"
definition RESOURCE_LIQUID :: string where "RESOURCE_LIQUID = ''liquid''"
definition RESOURCE_WIRE :: string where "RESOURCE_WIRE = ''wire''"
definition RESOURCE_SWITCH :: string where "RESOURCE_SWITCH = ''switch''"
definition RESOURCE_TRANSISTOR :: string where "RESOURCE_TRANSISTOR = ''transistor''"
definition RESOURCE_MICROCHIP :: string where "RESOURCE_MICROCHIP = ''microchip''"
definition RESOURCE_CIRCUIT :: string where "RESOURCE_CIRCUIT = ''circuit''"
definition RESOURCE_DEVICE :: string where "RESOURCE_DEVICE = ''device''"
definition RESOURCE_CELL :: string where "RESOURCE_CELL = ''cell''"
definition RESOURCE_PHLEGM :: string where "RESOURCE_PHLEGM = ''phlegm''"
definition RESOURCE_TISSUE :: string where "RESOURCE_TISSUE = ''tissue''"
definition RESOURCE_MUSCLE :: string where "RESOURCE_MUSCLE = ''muscle''"
definition RESOURCE_ORGANOID :: string where "RESOURCE_ORGANOID = ''organoid''"
definition RESOURCE_ORGANISM :: string where "RESOURCE_ORGANISM = ''organism''"
definition RESOURCE_ALLOY :: string where "RESOURCE_ALLOY = ''alloy''"
definition RESOURCE_TUBE :: string where "RESOURCE_TUBE = ''tube''"
definition RESOURCE_FIXTURES :: string where "RESOURCE_FIXTURES = ''fixtures''"
definition RESOURCE_FRAME :: string where "RESOURCE_FRAME = ''frame''"
definition RESOURCE_HYDRAULICS :: string where "RESOURCE_HYDRAULICS = ''hydraulics''"
definition RESOURCE_MACHINE :: string where "RESOURCE_MACHINE = ''machine''"
definition RESOURCE_CONDENSATE :: string where "RESOURCE_CONDENSATE = ''condensate''"
definition RESOURCE_CONCENTRATE :: string where "RESOURCE_CONCENTRATE = ''concentrate''"
definition RESOURCE_EXTRACT :: string where "RESOURCE_EXTRACT = ''extract''"
definition RESOURCE_SPIRIT :: string where "RESOURCE_SPIRIT = ''spirit''"
definition RESOURCE_EMANATION :: string where "RESOURCE_EMANATION = ''emanation''"
definition RESOURCE_ESSENCE :: string where "RESOURCE_ESSENCE = ''essence''"


definition MineralConstant :: "string list" where
  "MineralConstant =
     [RESOURCE_UTRIUM, RESOURCE_LEMERGIUM, RESOURCE_KEANIUM, RESOURCE_ZYNTHIUM,
     RESOURCE_OXYGEN, RESOURCE_HYDROGEN, RESOURCE_CATALYST]"

definition MineralBaseCompoundsConstant :: "string list" where
  "MineralBaseCompoundsConstant =
     [RESOURCE_HYDROXIDE, RESOURCE_ZYNTHIUM_KEANITE, RESOURCE_UTRIUM_LEMERGITE,
     RESOURCE_GHODIUM]"

definition MineralBoostConstant :: "string list" where
  "MineralBoostConstant =
     [RESOURCE_UTRIUM_HYDRIDE, RESOURCE_UTRIUM_OXIDE, RESOURCE_KEANIUM_HYDRIDE,
     RESOURCE_KEANIUM_OXIDE, RESOURCE_LEMERGIUM_HYDRIDE, RESOURCE_LEMERGIUM_OXIDE,
     RESOURCE_ZYNTHIUM_HYDRIDE, RESOURCE_ZYNTHIUM_OXIDE, RESOURCE_GHODIUM_HYDRIDE,
     RESOURCE_GHODIUM_OXIDE, RESOURCE_UTRIUM_ACID, RESOURCE_UTRIUM_ALKALIDE,
     RESOURCE_KEANIUM_ACID, RESOURCE_KEANIUM_ALKALIDE, RESOURCE_LEMERGIUM_ACID,
     RESOURCE_LEMERGIUM_ALKALIDE, RESOURCE_ZYNTHIUM_ACID, RESOURCE_ZYNTHIUM_ALKALIDE,
     RESOURCE_GHODIUM_ACID, RESOURCE_GHODIUM_ALKALIDE, RESOURCE_CATALYZED_UTRIUM_ACID,
     RESOURCE_CATALYZED_UTRIUM_ALKALIDE, RESOURCE_CATALYZED_KEANIUM_ACID,
     RESOURCE_CATALYZED_KEANIUM_ALKALIDE, RESOURCE_CATALYZED_LEMERGIUM_ACID,
     RESOURCE_CATALYZED_LEMERGIUM_ALKALIDE, RESOURCE_CATALYZED_ZYNTHIUM_ACID,
     RESOURCE_CATALYZED_ZYNTHIUM_ALKALIDE, RESOURCE_CATALYZED_GHODIUM_ACID,
     RESOURCE_CATALYZED_GHODIUM_ALKALIDE]"

definition MineralCompoundConstant :: "string list" where
  "MineralCompoundConstant =
     MineralBaseCompoundsConstant @ MineralBoostConstant"

definition DepositConstant :: "string list" where
  "DepositConstant =
     [RESOURCE_MIST, RESOURCE_BIOMASS, RESOURCE_METAL, RESOURCE_SILICON]"

definition CommodityConstant :: "string list" where
  "CommodityConstant =
     [RESOURCE_UTRIUM_BAR, RESOURCE_LEMERGIUM_BAR, RESOURCE_ZYNTHIUM_BAR, RESOURCE_KEANIUM_BAR,
     RESOURCE_GHODIUM_MELT, RESOURCE_OXIDANT, RESOURCE_REDUCTANT, RESOURCE_PURIFIER,
     RESOURCE_BATTERY, RESOURCE_COMPOSITE, RESOURCE_CRYSTAL, RESOURCE_LIQUID, RESOURCE_WIRE,
     RESOURCE_SWITCH, RESOURCE_TRANSISTOR, RESOURCE_MICROCHIP, RESOURCE_CIRCUIT,
     RESOURCE_DEVICE, RESOURCE_CELL, RESOURCE_PHLEGM, RESOURCE_TISSUE, RESOURCE_MUSCLE,
     RESOURCE_ORGANOID, RESOURCE_ORGANISM, RESOURCE_ALLOY, RESOURCE_TUBE, RESOURCE_FIXTURES,
     RESOURCE_FRAME, RESOURCE_HYDRAULICS, RESOURCE_MACHINE, RESOURCE_CONDENSATE,
     RESOURCE_CONCENTRATE, RESOURCE_EXTRACT, RESOURCE_SPIRIT, RESOURCE_EMANATION,
     RESOURCE_ESSENCE]"

definition ResourceConstant :: "string list" where
  "ResourceConstant =
     [RESOURCE_ENERGY, RESOURCE_POWER, RESOURCE_OPS] @ MineralConstant @
     MineralCompoundConstant @ DepositConstant @ CommodityConstant"

section \<open>Type expressions\<close>

text \<open>
  The type expressions that occur in the modelled declarations. \<open>TCode c\<close> is a reference to
  the literal alias \<open>c\<close>, \<open>TTag T\<close> a reference to a structure tag, \<open>TRef n\<close> a reference to a
  declaration that is not expanded here (\<^verbatim>\<open>Room\<close>, \<^verbatim>\<open>RoomPosition\<close>, \<^verbatim>\<open>Owner\<close>, ...), and
  \<open>TStore P U\<close> the instance \<^verbatim>\<open>Store<P, U>\<close> with \<open>P\<close> the members of the resource union.
\<close>

datatype ts_type =
    TNumber
  | TString
  | TBoolean
  | TNull
  | TUndefined
  | TNumLit int
  | TStrLit string
  | TCode return_code
  | TTag structure_constant
  | TRef string
  | TArray ts_type
  | TStore "string list" bool
  | TObject "(string \<times> ts_type) list"
  | TUnion "ts_type list"
  | TInter ts_type ts_type

text \<open>The three unions of return codes, members in the order of the declaration.\<close>

definition ScreepsReturnCode :: ts_type where
  "ScreepsReturnCode = TUnion
     [TCode OK, TCode ERR_NOT_OWNER, TCode ERR_NO_PATH, TCode ERR_BUSY, TCode ERR_NAME_EXISTS,
      TCode ERR_NOT_FOUND, TCode ERR_NOT_ENOUGH_RESOURCES, TCode ERR_NOT_ENOUGH_ENERGY,
      TCode ERR_INVALID_TARGET, TCode ERR_FULL, TCode ERR_NOT_IN_RANGE, TCode ERR_INVALID_ARGS,
      TCode ERR_TIRED, TCode ERR_NO_BODYPART, TCode ERR_NOT_ENOUGH_EXTENSIONS,
      TCode ERR_RCL_NOT_ENOUGH, TCode ERR_GCL_NOT_ENOUGH]"


definition CreepMoveReturnCode :: ts_type where
  "CreepMoveReturnCode = TUnion
     [TCode OK, TCode ERR_NOT_OWNER, TCode ERR_BUSY, TCode ERR_TIRED, TCode ERR_NO_BODYPART]"

text \<open>
  The numeric literals a type admits through its return-code members, and whether a type
  consists of return codes only (so that every value of it is a result code).
\<close>

fun codes_of :: "ts_type \<Rightarrow> int list" where
  "codes_of (TCode c) = [return_code_value c]"
| "codes_of (TUnion ts) = concat (map codes_of ts)"
| "codes_of _ = []"

fun only_codes :: "ts_type \<Rightarrow> bool" where
  "only_codes (TCode c) = True"
| "only_codes (TUnion ts) = (ts \<noteq> [] \<and> list_all only_codes ts)"
| "only_codes _ = False"

fun admits_undefined :: "ts_type \<Rightarrow> bool" where
  "admits_undefined TUndefined = True"
| "admits_undefined (TUnion ts) = list_ex admits_undefined ts"
| "admits_undefined _ = False"

fun is_number_type :: "ts_type \<Rightarrow> bool" where
  "is_number_type TNumber = True"
| "is_number_type (TNumLit n) = True"
| "is_number_type _ = False"


definition literal_union :: "string list \<Rightarrow> ts_type" where
  "literal_union xs = TUnion (map TStrLit xs)"

definition StoreDefinition :: ts_type where
  "StoreDefinition = TStore ResourceConstant False"

definition StoreDefinitionUnlimited :: ts_type where
  "StoreDefinitionUnlimited = TStore ResourceConstant True"

section \<open>Interfaces\<close>

text \<open>
  An interface is the list of its members in the order of the declaration. A method keeps
  its parameters (name, optional or not, type) and its return type. \<open>interface_extends\<close> is
  \<^verbatim>\<open>interface I extends B { ... }\<close>: the members \<open>I\<close> declares, then the members of \<open>B\<close> that
  \<open>I\<close> does not declare again.
\<close>

datatype param = Param string ts_type | OptionalParam string ts_type

datatype member =
    ReadonlyProperty string ts_type
  | Property string ts_type
  | OptionalProperty string ts_type
  | Method string "param list" ts_type

fun member_name :: "member \<Rightarrow> string" where
  "member_name (ReadonlyProperty n t) = n"
| "member_name (Property n t) = n"
| "member_name (OptionalProperty n t) = n"
| "member_name (Method n ps r) = n"

definition interface_extends :: "member list \<Rightarrow> member list \<Rightarrow> member list" where
  "interface_extends base own =
     own @ filter (\<lambda>m. member_name m \<notin> set (map member_name own)) base"

definition has_member :: "member list \<Rightarrow> string \<Rightarrow> bool" where
  "has_member ms n = (n \<in> set (map member_name ms))"

text \<open>
  The type read at \<^verbatim>\<open>x.n\<close> when \<open>n\<close> is a property (an optional property reads as its type
  or \<^verbatim>\<open>undefined\<close>), and the declared return type when \<open>n\<close> is a method.
\<close>

fun property_type :: "member list \<Rightarrow> string \<Rightarrow> ts_type option" where
  "property_type [] n = None"
| "property_type (ReadonlyProperty k t # ms) n = (if k = n then Some t else property_type ms n)"
| "property_type (Property k t # ms) n = (if k = n then Some t else property_type ms n)"
| "property_type (OptionalProperty k t # ms) n =
     (if k = n then Some (TUnion [t, TUndefined]) else property_type ms n)"
| "property_type (Method k ps r # ms) n = (if k = n then None else property_type ms n)"

fun method_return :: "member list \<Rightarrow> string \<Rightarrow> ts_type option" where
  "method_return [] n = None"
| "method_return (Method k ps r # ms) n = (if k = n then Some r else method_return ms n)"
| "method_return (m # ms) n = (if member_name m = n then None else method_return ms n)"


subsection \<open>The base interfaces\<close>

definition RoomObject :: "member list" where
  "RoomObject =
     [ReadonlyProperty ''prototype'' (TRef ''RoomObject''),
      OptionalProperty ''effects'' (TArray (TRef ''RoomObjectEffect'')),
      Property ''pos'' (TRef ''RoomPosition''),
      Property ''room'' (TUnion [TRef ''Room'', TUndefined])]"

text \<open>
  \<^verbatim>\<open>interface Structure<T extends StructureConstant = StructureConstant> extends RoomObject\<close>,
  at a single tag \<open>T\<close>, as every concrete structure interface instantiates it.
\<close>

definition Structure :: "structure_constant \<Rightarrow> member list" where
  "Structure T = interface_extends RoomObject
     [ReadonlyProperty ''prototype'' (TRef ''Structure''),
      Property ''hits'' TNumber,
      Property ''hitsMax'' TNumber,
      Property ''id'' (TRef ''Id<this>''),
      Property ''room'' (TRef ''Room''),
      Property ''structureType'' (TTag T),
      Method ''destroy'' [] ScreepsReturnCode,
      Method ''isActive'' [] TBoolean,
      Method ''notifyWhenAttacked'' [Param ''enabled'' TBoolean] ScreepsReturnCode]"

text \<open>
  \<^verbatim>\<open>interface OwnedStructure<T ...> extends Structure<T>\<close>; the type of \<^verbatim>\<open>owner\<close> is the
  conditional type \<^verbatim>\<open>T extends STRUCTURE_CONTROLLER ? Owner | undefined : Owner\<close>.
\<close>

definition OwnedStructure :: "structure_constant \<Rightarrow> member list" where
  "OwnedStructure T = interface_extends (Structure T)
     [ReadonlyProperty ''prototype'' (TRef ''OwnedStructure''),
      Property ''my'' TBoolean,
      Property ''owner''
        (if T = STRUCTURE_CONTROLLER then TUnion [TRef ''Owner'', TUndefined] else TRef ''Owner''),
      Property ''room'' (TRef ''Room'')]"

subsection \<open>The concrete structure interfaces\<close>

datatype concrete_structure =
    StructureController
  | StructureExtension
  | StructureLink
  | StructureKeeperLair
  | StructureObserver
  | StructurePowerBank
  | StructurePowerSpawn
  | StructureRampart
  | StructureRoad
  | StructureStorage
  | StructureTower
  | StructureWall
  | StructureExtractor
  | StructureLab
  | StructureTerminal
  | StructureContainer
  | StructureNuker
  | StructurePortal
  | StructureFactory
  | StructureInvaderCore
  | StructureSpawn

datatype base_interface =
    ExtendsStructure structure_constant
  | ExtendsOwnedStructure structure_constant

text \<open>The \<^verbatim>\<open>extends\<close> clause of each concrete interface.\<close>

fun parent :: "concrete_structure \<Rightarrow> base_interface" where
  "parent StructureController = ExtendsOwnedStructure STRUCTURE_CONTROLLER"
| "parent StructureExtension = ExtendsOwnedStructure STRUCTURE_EXTENSION"
| "parent StructureLink = ExtendsOwnedStructure STRUCTURE_LINK"
| "parent StructureKeeperLair = ExtendsOwnedStructure STRUCTURE_KEEPER_LAIR"
| "parent StructureObserver = ExtendsOwnedStructure STRUCTURE_OBSERVER"
| "parent StructurePowerBank = ExtendsOwnedStructure STRUCTURE_POWER_BANK"
| "parent StructurePowerSpawn = ExtendsOwnedStructure STRUCTURE_POWER_SPAWN"
| "parent StructureRampart = ExtendsOwnedStructure STRUCTURE_RAMPART"
| "parent StructureRoad = ExtendsStructure STRUCTURE_ROAD"
| "parent StructureStorage = ExtendsOwnedStructure STRUCTURE_STORAGE"
| "parent StructureTower = ExtendsOwnedStructure STRUCTURE_TOWER"
| "parent StructureWall = ExtendsStructure STRUCTURE_WALL"
| "parent StructureExtractor = ExtendsOwnedStructure STRUCTURE_EXTRACTOR"
| "parent StructureLab = ExtendsOwnedStructure STRUCTURE_LAB"
| "parent StructureTerminal = ExtendsOwnedStructure STRUCTURE_TERMINAL"
| "parent StructureContainer = ExtendsStructure STRUCTURE_CONTAINER"
| "parent StructureNuker = ExtendsOwnedStructure STRUCTURE_NUKER"
| "parent StructurePortal = ExtendsStructure STRUCTURE_PORTAL"
| "parent StructureFactory = ExtendsOwnedStructure STRUCTURE_FACTORY"
| "parent StructureInvaderCore = ExtendsOwnedStructure STRUCTURE_INVADER_CORE"
| "parent StructureSpawn = ExtendsOwnedStructure STRUCTURE_SPAWN"

text \<open>The members each concrete interface declares itself.\<close>

fun own_members :: "concrete_structure \<Rightarrow> member list" where
  "own_members StructureController =
     [ReadonlyProperty ''prototype'' (TRef ''StructureController''),
      Property ''isPowerEnabled'' TBoolean,
      Property ''level'' TNumber,
      Property ''progress'' TNumber,
      Property ''progressTotal'' TNumber,
      Property ''reservation'' (TUnion [TRef ''ReservationDefinition'', TUndefined]),
      OptionalProperty ''safeMode'' TNumber,
      Property ''safeModeAvailable'' TNumber,
      OptionalProperty ''safeModeCooldown'' TNumber,
      Property ''sign'' (TUnion [TRef ''SignDefinition'', TUndefined]),
      Property ''ticksToDowngrade'' TNumber,
      Property ''upgradeBlocked'' TNumber,
      Method ''activateSafeMode'' [] ScreepsReturnCode,
      Method ''unclaim'' [] ScreepsReturnCode]"
| "own_members StructureExtension =
     [ReadonlyProperty ''prototype'' (TRef ''StructureExtension''),
      Property ''energy'' TNumber,
      Property ''energyCapacity'' TNumber,
      Property ''store'' (TStore [RESOURCE_ENERGY] False)]"
| "own_members StructureLink =
     [ReadonlyProperty ''prototype'' (TRef ''StructureLink''),
      Property ''cooldown'' TNumber,
      Property ''energy'' TNumber,
      Property ''energyCapacity'' TNumber,
      Property ''store'' (TStore [RESOURCE_ENERGY] False),
      Method ''transferEnergy'' [Param ''target'' (TRef ''StructureLink''), OptionalParam
        ''amount'' TNumber] ScreepsReturnCode]"
| "own_members StructureKeeperLair =
     [ReadonlyProperty ''prototype'' (TRef ''StructureKeeperLair''),
      OptionalProperty ''ticksToSpawn'' TNumber]"
| "own_members StructureObserver =
     [ReadonlyProperty ''prototype'' (TRef ''StructureObserver''),
      Method ''observeRoom'' [Param ''roomName'' TString] ScreepsReturnCode]"
| "own_members StructurePowerBank =
     [ReadonlyProperty ''prototype'' (TRef ''StructurePowerBank''),
      Property ''power'' TNumber,
      Property ''ticksToDecay'' TNumber]"
| "own_members StructurePowerSpawn =
     [ReadonlyProperty ''prototype'' (TRef ''StructurePowerSpawn''),
      Property ''energy'' TNumber,
      Property ''energyCapacity'' TNumber,
      Property ''power'' TNumber,
      Property ''powerCapacity'' TNumber,
      Property ''store'' (TStore ([RESOURCE_ENERGY, RESOURCE_POWER]) False),
      Method ''processPower'' [] ScreepsReturnCode]"
| "own_members StructureRampart =
     [ReadonlyProperty ''prototype'' (TRef ''StructureRampart''),
      Property ''ticksToDecay'' TNumber,
      Property ''isPublic'' TBoolean,
      Method ''setPublic'' [Param ''isPublic'' TBoolean] TUndefined]"
| "own_members StructureRoad =
     [ReadonlyProperty ''prototype'' (TRef ''StructureRoad''),
      Property ''ticksToDecay'' TNumber]"
| "own_members StructureStorage =
     [ReadonlyProperty ''prototype'' (TRef ''StructureStorage''),
      Property ''store'' StoreDefinition,
      Property ''storeCapacity'' TNumber]"
| "own_members StructureTower =
     [ReadonlyProperty ''prototype'' (TRef ''StructureTower''),
      Property ''energy'' TNumber,
      Property ''energyCapacity'' TNumber,
      Property ''store'' (TStore [RESOURCE_ENERGY] False),
      Method ''attack'' [Param ''target'' (TUnion [TRef ''AnyCreep'', (TRef
        ''Structure'')])] ScreepsReturnCode,
      Method ''heal'' [Param ''target'' (TRef ''AnyCreep'')] ScreepsReturnCode,
      Method ''repair'' [Param ''target'' (TRef ''Structure'')] ScreepsReturnCode]"
| "own_members StructureWall =
     [ReadonlyProperty ''prototype'' (TRef ''StructureWall''),
      Property ''ticksToLive'' TNumber]"
| "own_members StructureExtractor =
     [ReadonlyProperty ''prototype'' (TRef ''StructureExtractor''),
      Property ''cooldown'' TNumber]"
| "own_members StructureLab =
     [ReadonlyProperty ''prototype'' (TRef ''StructureLab''),
      Property ''cooldown'' TNumber,
      Property ''energy'' TNumber,
      Property ''energyCapacity'' TNumber,
      Property ''mineralAmount'' TNumber,
      Property ''mineralType'' (TUnion [literal_union MineralConstant, literal_union
        MineralCompoundConstant, TNull]),
      Property ''mineralCapacity'' TNumber,
      Property ''store'' (TStore ([RESOURCE_ENERGY] @ MineralConstant @
        MineralCompoundConstant) False),
      Method ''boostCreep'' [Param ''creep'' (TRef ''Creep''), OptionalParam
        ''bodyPartsCount'' TNumber] ScreepsReturnCode,
      Method ''unboostCreep'' [Param ''creep'' (TRef ''Creep'')] ScreepsReturnCode,
      Method ''reverseReaction'' [Param ''lab1'' (TRef ''StructureLab''), Param ''lab2'' (TRef
        ''StructureLab'')] ScreepsReturnCode,
      Method ''runReaction'' [Param ''lab1'' (TRef ''StructureLab''), Param ''lab2'' (TRef
        ''StructureLab'')] ScreepsReturnCode]"
| "own_members StructureTerminal =
     [ReadonlyProperty ''prototype'' (TRef ''StructureTerminal''),
      Property ''cooldown'' TNumber,
      Property ''store'' StoreDefinition,
      Property ''storeCapacity'' TNumber,
      Method ''send'' [Param ''resourceType'' (literal_union ResourceConstant), Param
        ''amount'' TNumber, Param ''destination'' TString, OptionalParam ''description''
        TString] ScreepsReturnCode]"
| "own_members StructureContainer =
     [ReadonlyProperty ''prototype'' (TRef ''StructureContainer''),
      Property ''store'' StoreDefinition,
      Property ''storeCapacity'' TNumber,
      Property ''ticksToDecay'' TNumber]"
| "own_members StructureNuker =
     [ReadonlyProperty ''prototype'' (TRef ''StructureNuker''),
      Property ''energy'' TNumber,
      Property ''energyCapacity'' TNumber,
      Property ''ghodium'' TNumber,
      Property ''ghodiumCapacity'' TNumber,
      Property ''cooldown'' TNumber,
      Property ''store'' (TStore ([RESOURCE_ENERGY, RESOURCE_GHODIUM]) False),
      Method ''launchNuke'' [Param ''pos'' (TRef ''RoomPosition'')] ScreepsReturnCode]"
| "own_members StructurePortal =
     [ReadonlyProperty ''prototype'' (TRef ''StructurePortal''),
      Property ''destination'' (TUnion [TRef ''RoomPosition'', TObject [(''shard'',
        TString), (''room'', TString)]]),
      Property ''ticksToDecay'' (TUnion [TNumber, TUndefined])]"
| "own_members StructureFactory =
     [ReadonlyProperty ''prototype'' (TRef ''StructureFactory''),
      Property ''cooldown'' TNumber,
      OptionalProperty ''level'' TNumber,
      Property ''store'' StoreDefinition,
      Method ''produce'' [Param ''resource'' (TRef ''CommoditiesTypes'')] ScreepsReturnCode]"
| "own_members StructureInvaderCore =
     [ReadonlyProperty ''prototype'' (TRef ''StructureInvaderCore''),
      Property ''level'' TNumber,
      Property ''ticksToDeploy'' TNumber,
      Property ''spawning'' (TUnion [TRef ''Spawning'', TNull])]"
| "own_members StructureSpawn =
     [ReadonlyProperty ''prototype'' (TRef ''StructureSpawn''),
      Property ''energy'' TNumber,
      Property ''energyCapacity'' TNumber,
      Property ''memory'' (TRef ''SpawnMemory''),
      Property ''name'' TString,
      Property ''spawning'' (TUnion [TRef ''Spawning'', TNull]),
      Property ''store'' (TStore [RESOURCE_ENERGY] False),
      Method ''canCreateCreep'' [Param ''body'' (TArray (TRef ''BodyPartConstant'')),
        OptionalParam ''name'' TString] ScreepsReturnCode,
      Method ''createCreep'' [Param ''body'' (TArray (TRef ''BodyPartConstant'')),
        OptionalParam ''name'' TString, OptionalParam ''memory'' (TRef ''CreepMemory'')]
        (TUnion [ScreepsReturnCode, TString]),
      Method ''spawnCreep'' [Param ''body'' (TArray (TRef ''BodyPartConstant'')), Param
        ''name'' TString, OptionalParam ''opts'' (TRef ''SpawnOptions'')] ScreepsReturnCode,
      Method ''renewCreep'' [Param ''target'' (TRef ''Creep'')] ScreepsReturnCode,
      Method ''recycleCreep'' [Param ''target'' (TRef ''Creep'')] ScreepsReturnCode]"

fun parent_members :: "base_interface \<Rightarrow> member list" where
  "parent_members (ExtendsStructure T) = Structure T"
| "parent_members (ExtendsOwnedStructure T) = OwnedStructure T"

definition members :: "concrete_structure \<Rightarrow> member list" where
  "members c = interface_extends (parent_members (parent c)) (own_members c)"

subsection \<open>Unions of structures and the tag map\<close>

definition AnyOwnedStructure :: "concrete_structure list" where
  "AnyOwnedStructure =
     [StructureController, StructureExtension, StructureExtractor, StructureFactory,
      StructureInvaderCore, StructureKeeperLair, StructureLab, StructureLink, StructureNuker,
      StructureObserver, StructurePowerBank, StructurePowerSpawn, StructureRampart,
      StructureSpawn, StructureStorage, StructureTerminal, StructureTower]"

definition AnyStoreStructure :: "concrete_structure list" where
  "AnyStoreStructure =
     [StructureExtension, StructureFactory, StructureLab, StructureLink, StructureNuker,
      StructurePowerSpawn, StructureSpawn, StructureStorage, StructureTerminal, StructureTower,
      StructureContainer]"

definition AnyStructure :: "concrete_structure list" where
  "AnyStructure =
     AnyOwnedStructure @ [StructureContainer, StructurePortal, StructureRoad, StructureWall]"

definition ConcreteStructureMap :: "(structure_constant \<times> concrete_structure) list" where
  "ConcreteStructureMap =
     [(STRUCTURE_EXTENSION, StructureExtension),
      (STRUCTURE_RAMPART, StructureRampart),
      (STRUCTURE_ROAD, StructureRoad),
      (STRUCTURE_SPAWN, StructureSpawn),
      (STRUCTURE_LINK, StructureLink),
      (STRUCTURE_WALL, StructureWall),
      (STRUCTURE_STORAGE, StructureStorage),
      (STRUCTURE_TOWER, StructureTower),
      (STRUCTURE_OBSERVER, StructureObserver),
      (STRUCTURE_POWER_SPAWN, StructurePowerSpawn),
      (STRUCTURE_EXTRACTOR, StructureExtractor),
      (STRUCTURE_LAB, StructureLab),
      (STRUCTURE_TERMINAL, StructureTerminal),
      (STRUCTURE_CONTAINER, StructureContainer),
      (STRUCTURE_NUKER, StructureNuker),
      (STRUCTURE_FACTORY, StructureFactory),
      (STRUCTURE_KEEPER_LAIR, StructureKeeperLair),
      (STRUCTURE_CONTROLLER, StructureController),
      (STRUCTURE_POWER_BANK, StructurePowerBank),
      (STRUCTURE_PORTAL, StructurePortal),
      (STRUCTURE_INVADER_CORE, StructureInvaderCore)]"

text \<open>\<^verbatim>\<open>type ConcreteStructure<T extends StructureConstant> = ConcreteStructureMap[T];\<close>\<close>

definition ConcreteStructure :: "structure_constant \<Rightarrow> concrete_structure option" where
  "ConcreteStructure T = map_of ConcreteStructureMap T"

subsection \<open>Ruins and tombstones\<close>

text \<open>The two interfaces whose store is the unlimited \<^verbatim>\<open>StoreDefinitionUnlimited\<close>.\<close>

definition Ruin :: "member list" where
  "Ruin = interface_extends RoomObject
     [Property ''id'' (TRef ''Id<this>''),
      Property ''destroyTime'' TNumber,
      Property ''store'' StoreDefinitionUnlimited,
      Property ''ticksToDecay'' TNumber,
      Property ''structure'' (TRef ''AnyStructure'')]"

definition Tombstone :: "member list" where
  "Tombstone = interface_extends RoomObject
     [Property ''id'' (TRef ''Id<this>''),
      Property ''deathTime'' TNumber,
      Property ''store'' StoreDefinitionUnlimited,
      Property ''ticksToDecay'' TNumber,
      Property ''creep'' (TRef ''AnyCreep'')]"

section \<open>Documented result codes\<close>

text \<open>
  The codes that the documentation comment of a method enumerates after
  \<^verbatim>\<open>@returns One of the following codes:\<close>, keyed by interface and method name, in the order
  of the comment. The table holds the methods of the structure interfaces and the methods of
  \<^verbatim>\<open>Creep\<close> and \<^verbatim>\<open>PowerCreep\<close> that move resources.
\<close>

definition documented_codes :: "((string \<times> string) \<times> return_code list) list" where
  "documented_codes =
     [((''Structure'', ''destroy''), [OK, ERR_NOT_OWNER, ERR_BUSY]),
      ((''Structure'', ''notifyWhenAttacked''), [OK, ERR_NOT_OWNER, ERR_INVALID_ARGS]),
      ((''StructureController'', ''activateSafeMode''), [OK, ERR_NOT_OWNER, ERR_BUSY,
         ERR_NOT_ENOUGH_RESOURCES, ERR_TIRED]),
      ((''StructureController'', ''unclaim''), [OK, ERR_NOT_OWNER]),
      ((''StructureLink'', ''transferEnergy''), [OK, ERR_NOT_OWNER,
         ERR_NOT_ENOUGH_RESOURCES, ERR_INVALID_TARGET, ERR_FULL, ERR_NOT_IN_RANGE,
         ERR_INVALID_ARGS, ERR_TIRED, ERR_RCL_NOT_ENOUGH]),
      ((''StructureObserver'', ''observeRoom''), [OK, ERR_NOT_OWNER, ERR_NOT_IN_RANGE,
         ERR_INVALID_ARGS, ERR_RCL_NOT_ENOUGH]),
      ((''StructurePowerSpawn'', ''processPower''), [OK, ERR_NOT_OWNER,
         ERR_NOT_ENOUGH_RESOURCES, ERR_RCL_NOT_ENOUGH]),
      ((''StructureRampart'', ''setPublic''), [OK, ERR_NOT_OWNER]),
      ((''StructureTower'', ''attack''), [OK, ERR_NOT_OWNER, ERR_NOT_ENOUGH_ENERGY,
         ERR_INVALID_TARGET, ERR_RCL_NOT_ENOUGH]),
      ((''StructureTower'', ''heal''), [OK, ERR_NOT_OWNER, ERR_NOT_ENOUGH_ENERGY,
         ERR_INVALID_TARGET, ERR_RCL_NOT_ENOUGH]),
      ((''StructureTower'', ''repair''), [OK, ERR_NOT_OWNER, ERR_NOT_ENOUGH_ENERGY,
         ERR_INVALID_TARGET, ERR_RCL_NOT_ENOUGH]),
      ((''StructureLab'', ''boostCreep''), [OK, ERR_NOT_OWNER, ERR_NOT_FOUND,
         ERR_NOT_ENOUGH_RESOURCES, ERR_INVALID_TARGET, ERR_NOT_IN_RANGE, ERR_RCL_NOT_ENOUGH]),
      ((''StructureLab'', ''unboostCreep''), [OK, ERR_NOT_OWNER, ERR_NOT_FOUND,
         ERR_INVALID_TARGET, ERR_NOT_IN_RANGE, ERR_TIRED, ERR_RCL_NOT_ENOUGH]),
      ((''StructureLab'', ''reverseReaction''), [OK, ERR_NOT_OWNER,
         ERR_NOT_ENOUGH_RESOURCES, ERR_INVALID_TARGET, ERR_FULL, ERR_NOT_IN_RANGE,
         ERR_INVALID_ARGS, ERR_TIRED, ERR_RCL_NOT_ENOUGH]),
      ((''StructureLab'', ''runReaction''), [OK, ERR_NOT_OWNER, ERR_NOT_ENOUGH_RESOURCES,
         ERR_INVALID_TARGET, ERR_FULL, ERR_NOT_IN_RANGE, ERR_INVALID_ARGS, ERR_TIRED,
         ERR_RCL_NOT_ENOUGH]),
      ((''StructureTerminal'', ''send''), [OK, ERR_NOT_OWNER, ERR_NOT_ENOUGH_RESOURCES,
         ERR_INVALID_ARGS, ERR_TIRED]),
      ((''StructureNuker'', ''launchNuke''), [OK, ERR_NOT_OWNER, ERR_NOT_ENOUGH_RESOURCES,
         ERR_INVALID_TARGET, ERR_NOT_IN_RANGE, ERR_INVALID_ARGS, ERR_TIRED,
         ERR_RCL_NOT_ENOUGH]),
      ((''StructureFactory'', ''produce''), [OK, ERR_NOT_OWNER, ERR_BUSY,
         ERR_NOT_ENOUGH_RESOURCES, ERR_INVALID_TARGET, ERR_FULL, ERR_INVALID_ARGS, ERR_TIRED,
         ERR_RCL_NOT_ENOUGH]),
      ((''StructureSpawn'', ''canCreateCreep''), [OK, ERR_NOT_OWNER, ERR_NAME_EXISTS,
         ERR_BUSY, ERR_NOT_ENOUGH_ENERGY, ERR_INVALID_ARGS, ERR_RCL_NOT_ENOUGH]),
      ((''StructureSpawn'', ''createCreep''), [ERR_NOT_OWNER, ERR_NAME_EXISTS, ERR_BUSY,
         ERR_NOT_ENOUGH_ENERGY, ERR_INVALID_ARGS, ERR_RCL_NOT_ENOUGH]),
      ((''StructureSpawn'', ''spawnCreep''), [OK, ERR_NOT_OWNER, ERR_NAME_EXISTS, ERR_BUSY,
         ERR_NOT_ENOUGH_ENERGY, ERR_INVALID_ARGS, ERR_RCL_NOT_ENOUGH]),
      ((''StructureSpawn'', ''renewCreep''), [OK, ERR_NOT_OWNER, ERR_BUSY,
         ERR_NOT_ENOUGH_ENERGY, ERR_INVALID_TARGET, ERR_FULL, ERR_NOT_IN_RANGE,
         ERR_RCL_NOT_ENOUGH]),
      ((''StructureSpawn'', ''recycleCreep''), [OK, ERR_NOT_OWNER, ERR_INVALID_TARGET,
         ERR_NOT_IN_RANGE, ERR_RCL_NOT_ENOUGH]),
      ((''Creep'', ''drop''), [OK, ERR_NOT_OWNER, ERR_BUSY, ERR_NOT_ENOUGH_RESOURCES,
         ERR_INVALID_ARGS]),
      ((''Creep'', ''pickup''), [OK, ERR_NOT_OWNER, ERR_BUSY, ERR_INVALID_TARGET, ERR_FULL,
         ERR_NOT_IN_RANGE, ERR_NO_BODYPART]),
      ((''Creep'', ''transfer''), [OK, ERR_NOT_OWNER, ERR_BUSY, ERR_NOT_ENOUGH_RESOURCES,
         ERR_INVALID_TARGET, ERR_FULL, ERR_NOT_IN_RANGE, ERR_INVALID_ARGS]),
      ((''Creep'', ''withdraw''), [OK, ERR_NOT_OWNER, ERR_BUSY, ERR_NOT_ENOUGH_RESOURCES,
         ERR_INVALID_TARGET, ERR_FULL, ERR_NOT_IN_RANGE, ERR_INVALID_ARGS]),
      ((''PowerCreep'', ''drop''), [OK, ERR_NOT_OWNER, ERR_BUSY, ERR_NOT_ENOUGH_RESOURCES,
         ERR_INVALID_ARGS]),
      ((''PowerCreep'', ''pickup''), [OK, ERR_NOT_OWNER, ERR_BUSY, ERR_INVALID_TARGET,
         ERR_FULL, ERR_NOT_IN_RANGE]),
      ((''PowerCreep'', ''transfer''), [OK, ERR_NOT_OWNER, ERR_BUSY,
         ERR_NOT_ENOUGH_RESOURCES, ERR_INVALID_TARGET, ERR_FULL, ERR_NOT_IN_RANGE,
         ERR_INVALID_ARGS]),
      ((''PowerCreep'', ''withdraw''), [OK, ERR_NOT_OWNER, ERR_BUSY,
         ERR_NOT_ENOUGH_RESOURCES, ERR_INVALID_TARGET, ERR_FULL, ERR_NOT_IN_RANGE,
         ERR_INVALID_ARGS])]"

definition documented :: "string \<Rightarrow> string \<Rightarrow> return_code list" where
  "documented i m = (case map_of documented_codes (i, m) of None \<Rightarrow> [] | Some cs \<Rightarrow> cs)"

fun interface_name :: "concrete_structure \<Rightarrow> string" where
  "interface_name StructureController = ''StructureController''"
| "interface_name StructureExtension = ''StructureExtension''"
| "interface_name StructureLink = ''StructureLink''"
| "interface_name StructureKeeperLair = ''StructureKeeperLair''"
| "interface_name StructureObserver = ''StructureObserver''"
| "interface_name StructurePowerBank = ''StructurePowerBank''"
| "interface_name StructurePowerSpawn = ''StructurePowerSpawn''"
| "interface_name StructureRampart = ''StructureRampart''"
| "interface_name StructureRoad = ''StructureRoad''"
| "interface_name StructureStorage = ''StructureStorage''"
| "interface_name StructureTower = ''StructureTower''"
| "interface_name StructureWall = ''StructureWall''"
| "interface_name StructureExtractor = ''StructureExtractor''"
| "interface_name StructureLab = ''StructureLab''"
| "interface_name StructureTerminal = ''StructureTerminal''"
| "interface_name StructureContainer = ''StructureContainer''"
| "interface_name StructureNuker = ''StructureNuker''"
| "interface_name StructurePortal = ''StructurePortal''"
| "interface_name StructureFactory = ''StructureFactory''"
| "interface_name StructureInvaderCore = ''StructureInvaderCore''"
| "interface_name StructureSpawn = ''StructureSpawn''"




subsection \<open>The resource methods of creeps\<close>



section \<open>Stores\<close>

text \<open>
  \<^verbatim>\<open>StoreBase<POSSIBLE_RESOURCES extends ResourceConstant, UNLIMITED_STORE extends boolean>\<close>.
  \<open>P\<close> is the set of members of \<^verbatim>\<open>POSSIBLE_RESOURCES\<close>, \<open>U\<close> is \<^verbatim>\<open>UNLIMITED_STORE\<close>, and the
  argument \<open>R\<close> is \<open>None\<close> for \<^verbatim>\<open>undefined\<close> (no argument) and \<open>Some r\<close> for the resource literal
  \<open>r\<close>. Each function is the conditional return type of the method: \<^verbatim>\<open>R extends undefined\<close> is
  \<open>R = None\<close>, \<^verbatim>\<open>ResourceConstant extends POSSIBLE_RESOURCES\<close> is inclusion of the whole union in
  \<open>P\<close>, and \<^verbatim>\<open>R extends POSSIBLE_RESOURCES\<close> is membership of the literal in \<open>P\<close>.
\<close>

definition getCapacity :: "string set \<Rightarrow> bool \<Rightarrow> string option \<Rightarrow> ts_type" where
  "getCapacity P U R =
     (if U then TNull
      else case R of
        None \<Rightarrow> if set ResourceConstant \<subseteq> P then TNumber else TNull
      | Some r \<Rightarrow> if r \<in> P then TNumber else TNull)"

definition getUsedCapacity :: "string set \<Rightarrow> bool \<Rightarrow> string option \<Rightarrow> ts_type" where
  "getUsedCapacity P U R =
     (case R of
        None \<Rightarrow> if set ResourceConstant \<subseteq> P then TNumber else TNull
      | Some r \<Rightarrow> if r \<in> P then TNumber else TNull)"

definition getFreeCapacity :: "string set \<Rightarrow> bool \<Rightarrow> string option \<Rightarrow> ts_type" where
  "getFreeCapacity P U R =
     (if U then TNull
      else case R of
        None \<Rightarrow> if set ResourceConstant \<subseteq> P then TNumber else TNull
      | Some r \<Rightarrow> if r \<in> P then TNumber else TNull)"

text \<open>
  The two mapped types of \<^verbatim>\<open>Store\<close>: \<^verbatim>\<open>{ [P in POSSIBLE_RESOURCES]: number }\<close> and
  \<^verbatim>\<open>{ [P in Exclude<ResourceConstant, POSSIBLE_RESOURCES>]: 0 }\<close>. A mapped type gives its
  value type at each key of its key set and has no other property; an intersection of two
  object types has, at a key, the intersection of the types the two sides give there.
\<close>

definition mapped_type :: "string set \<Rightarrow> ts_type \<Rightarrow> string \<Rightarrow> ts_type option" where
  "mapped_type K t k = (if k \<in> K then Some t else None)"

definition Exclude :: "string set \<Rightarrow> string set \<Rightarrow> string set" where
  "Exclude T V = T - V"

definition intersect_properties ::
  "(string \<Rightarrow> ts_type option) \<Rightarrow> (string \<Rightarrow> ts_type option) \<Rightarrow> string \<Rightarrow> ts_type option" where
  "intersect_properties f g k =
     (case (f k, g k) of
        (None, None) \<Rightarrow> None
      | (Some a, None) \<Rightarrow> Some a
      | (None, Some b) \<Rightarrow> Some b
      | (Some a, Some b) \<Rightarrow> Some (TInter a b))"

text \<open>The type of \<^verbatim>\<open>store[r]\<close> for a store of type \<^verbatim>\<open>Store<P, U>\<close>.\<close>

definition Store_index :: "string set \<Rightarrow> bool \<Rightarrow> string \<Rightarrow> ts_type option" where
  "Store_index P U =
     intersect_properties
       (mapped_type P TNumber)
       (mapped_type (Exclude (set ResourceConstant) P) (TNumLit 0))"

section \<open>Return codes and constants\<close>

lemma range_return_code_value:
  "range return_code_value = {0, -1, -2, -3, -4, -5, -6, -7, -8, -9, -10, -11, -12, -14, -15}"
proof
  show "range return_code_value \<subseteq> {0, -1, -2, -3, -4, -5, -6, -7, -8, -9, -10, -11, -12, -14, -15}"
  proof
    fix v assume "v \<in> range return_code_value"
    then obtain c where "v = return_code_value c" by blast
    then show "v \<in> {0, -1, -2, -3, -4, -5, -6, -7, -8, -9, -10, -11, -12, -14, -15}"
      by (cases c) simp_all
  qed
next
  have "return_code_value c \<in> range return_code_value" for c by simp
  from this[of OK] this[of ERR_NOT_OWNER] this[of ERR_NO_PATH] this[of ERR_NAME_EXISTS]
    this[of ERR_BUSY] this[of ERR_NOT_FOUND] this[of ERR_NOT_ENOUGH_RESOURCES]
    this[of ERR_INVALID_TARGET] this[of ERR_FULL] this[of ERR_NOT_IN_RANGE]
    this[of ERR_INVALID_ARGS] this[of ERR_TIRED] this[of ERR_NO_BODYPART]
    this[of ERR_RCL_NOT_ENOUGH] this[of ERR_GCL_NOT_ENOUGH]
  show "{0, -1, -2, -3, -4, -5, -6, -7, -8, -9, -10, -11, -12, -14, -15} \<subseteq> range return_code_value"
    by simp
qed

lemma codes_of_ScreepsReturnCode:
  "codes_of ScreepsReturnCode = [0, -1, -2, -4, -3, -5, -6, -6, -7, -8, -9, -10, -11, -12, -6, -14, -15]"
  by (simp add: ScreepsReturnCode_def)

text \<open>
  Claim C1. The return-code aliases named in the claim stand for the literals 0, -1, -2, -3,
  -4, -5, -6, -7, -8, -9, -10, -11, -12, -14 and -15; \<^verbatim>\<open>ScreepsReturnCode\<close> consists of
  return-code aliases only, and its values are exactly the values of those fifteen aliases (the
  two further members \<^verbatim>\<open>ERR_NOT_ENOUGH_ENERGY\<close> and \<^verbatim>\<open>ERR_NOT_ENOUGH_EXTENSIONS\<close> stand for -6
  again and add no value).
\<close>

theorem C1_return_code_values:
  "return_code_value OK = 0 \<and>
   return_code_value ERR_NOT_OWNER = -1 \<and>
   return_code_value ERR_NO_PATH = -2 \<and>
   return_code_value ERR_NAME_EXISTS = -3 \<and>
   return_code_value ERR_BUSY = -4 \<and>
   return_code_value ERR_NOT_FOUND = -5 \<and>
   return_code_value ERR_NOT_ENOUGH_RESOURCES = -6 \<and>
   return_code_value ERR_INVALID_TARGET = -7 \<and>
   return_code_value ERR_FULL = -8 \<and>
   return_code_value ERR_NOT_IN_RANGE = -9 \<and>
   return_code_value ERR_INVALID_ARGS = -10 \<and>
   return_code_value ERR_TIRED = -11 \<and>
   return_code_value ERR_NO_BODYPART = -12 \<and>
   return_code_value ERR_RCL_NOT_ENOUGH = -14 \<and>
   return_code_value ERR_GCL_NOT_ENOUGH = -15 \<and>
   only_codes ScreepsReturnCode \<and>
   set (codes_of ScreepsReturnCode) =
     return_code_value ` {OK, ERR_NOT_OWNER, ERR_NO_PATH, ERR_NAME_EXISTS, ERR_BUSY,
       ERR_NOT_FOUND, ERR_NOT_ENOUGH_RESOURCES, ERR_INVALID_TARGET, ERR_FULL, ERR_NOT_IN_RANGE,
       ERR_INVALID_ARGS, ERR_TIRED, ERR_NO_BODYPART, ERR_RCL_NOT_ENOUGH, ERR_GCL_NOT_ENOUGH} \<and>
   set (codes_of ScreepsReturnCode) =
     {0, -1, -2, -3, -4, -5, -6, -7, -8, -9, -10, -11, -12, -14, -15}"
proof -
  have "only_codes ScreepsReturnCode"
    by (simp add: ScreepsReturnCode_def)
  moreover have "set (codes_of ScreepsReturnCode) =
     {0, -1, -2, -3, -4, -5, -6, -7, -8, -9, -10, -11, -12, -14, -15}"
    unfolding codes_of_ScreepsReturnCode by auto
  ultimately show ?thesis by simp
qed

text \<open>
  Claim C8. The three aliases \<^verbatim>\<open>ERR_NOT_ENOUGH_RESOURCES\<close>, \<^verbatim>\<open>ERR_NOT_ENOUGH_ENERGY\<close> and
  \<^verbatim>\<open>ERR_NOT_ENOUGH_EXTENSIONS\<close> stand for the same literal -6, so the map from alias names to
  values is not injective; no alias stands for -13, which is the only integer between -15 and
  0 that is not a return code.
\<close>

theorem C8_return_codes_not_injective:
  "return_code_value ERR_NOT_ENOUGH_RESOURCES = -6 \<and>
   return_code_value ERR_NOT_ENOUGH_ENERGY = -6 \<and>
   return_code_value ERR_NOT_ENOUGH_EXTENSIONS = -6 \<and>
   \<not> inj return_code_value \<and>
   (\<forall>c. return_code_value c \<noteq> -13) \<and>
   -13 \<notin> set (codes_of ScreepsReturnCode) \<and>
   {v. -15 \<le> v \<and> v \<le> 0 \<and> v \<notin> range return_code_value} = {-13}"
proof -
  have "\<not> inj return_code_value"
  proof
    assume "inj return_code_value"
    moreover have "return_code_value ERR_NOT_ENOUGH_RESOURCES = return_code_value ERR_NOT_ENOUGH_ENERGY"
      by simp
    ultimately have "ERR_NOT_ENOUGH_RESOURCES = ERR_NOT_ENOUGH_ENERGY"
      by (rule injD)
    then show False by simp
  qed
  moreover have "return_code_value c \<noteq> -13" for c
    by (cases c) simp_all
  moreover have "-13 \<notin> set (codes_of ScreepsReturnCode)"
    unfolding codes_of_ScreepsReturnCode by simp
  moreover have "{v. -15 \<le> v \<and> v \<le> 0 \<and> v \<notin> range return_code_value} = {-13}"
    unfolding range_return_code_value by auto arith
  ultimately show ?thesis by simp
qed

text \<open>
  Claim C4. \<^verbatim>\<open>MARKET_FEE\<close> is 0.05, that is 5/100 (five percent), and
  \<^verbatim>\<open>MARKET_ORDER_LIFE_TIME\<close> is 2592000000, which is 1000 * 60 * 60 * 24 * 30, the number of
  milliseconds in thirty days.
\<close>

theorem C4_market_constants:
  "MARKET_FEE = 5 / 100 \<and>
   MARKET_FEE * 100 = 5 \<and>
   MARKET_ORDER_LIFE_TIME = 2592000000 \<and>
   MARKET_ORDER_LIFE_TIME = 1000 * 60 * 60 * 24 * 30"
  by (simp add: MARKET_FEE_def MARKET_ORDER_LIFE_TIME_def)

section \<open>Structure interfaces\<close>

lemma StructureConstant_all: "set StructureConstant = UNIV"
proof -
  have "T \<in> set StructureConstant" for T
    by (cases T) (simp_all add: StructureConstant_def BuildableStructureConstant_def)
  then show ?thesis by blast
qed

lemma own_members_keep_base:
  "\<not> has_member (own_members c) ''structureType'' \<and> \<not> has_member (own_members c) ''owner'' \<and>
   \<not> has_member (own_members c) ''id'' \<and> \<not> has_member (own_members c) ''hits'' \<and>
   \<not> has_member (own_members c) ''hitsMax'' \<and> \<not> has_member (own_members c) ''pos'' \<and>
   \<not> has_member (own_members c) ''room''"
  by (cases c) (simp_all add: has_member_def)

lemma property_type_append:
  "property_type (xs @ ys) n =
     (if has_member xs n then property_type xs n else property_type ys n)"
  by (induction xs n rule: property_type.induct) (auto simp: has_member_def)

lemma property_type_filter:
  "(\<And>m. member_name m = n \<Longrightarrow> Q m) \<Longrightarrow> property_type (filter Q ms) n = property_type ms n"
  by (induction ms n rule: property_type.induct) auto

lemma property_type_inherited:
  "\<not> has_member own n \<Longrightarrow> property_type (interface_extends base own) n = property_type base n"
  by (simp add: interface_extends_def property_type_append property_type_filter has_member_def)

lemma has_member_interface_extends:
  "has_member (interface_extends base own) n = (has_member own n \<or> has_member base n)"
  by (auto simp: has_member_def interface_extends_def)

lemma property_type_Structure_structureType:
  "property_type (Structure T) ''structureType'' = Some (TTag T)"
  by (simp add: Structure_def interface_extends_def RoomObject_def)

lemma property_type_OwnedStructure_structureType:
  "property_type (OwnedStructure T) ''structureType'' = Some (TTag T)"
  by (simp add: OwnedStructure_def Structure_def interface_extends_def RoomObject_def)

lemma members_structureType:
  "property_type (members c) ''structureType'' =
     Some (TTag (case parent c of ExtendsStructure T \<Rightarrow> T | ExtendsOwnedStructure T \<Rightarrow> T))"
proof -
  have "property_type (members c) ''structureType'' =
        property_type (parent_members (parent c)) ''structureType''"
    using own_members_keep_base[of c]
    by (simp add: members_def property_type_inherited)
  also have "\<dots> = Some (TTag (case parent c of ExtendsStructure T \<Rightarrow> T | ExtendsOwnedStructure T \<Rightarrow> T))"
    by (cases "parent c")
       (simp_all add: property_type_Structure_structureType property_type_OwnedStructure_structureType)
  finally show ?thesis .
qed

lemma ConcreteStructure_tag:
  "\<exists>c. ConcreteStructure T = Some c \<and>
       (parent c = ExtendsStructure T \<or> parent c = ExtendsOwnedStructure T)"
  by (cases T) (simp_all add: ConcreteStructure_def ConcreteStructureMap_def)

text \<open>
  Claim C3. \<^verbatim>\<open>ConcreteStructureMap\<close> has 21 distinct keys, which are all the structure tags;
  for every tag \<open>T\<close> the interface \<^verbatim>\<open>ConcreteStructure<T>\<close> exists and its \<^verbatim>\<open>structureType\<close> has
  type \<open>T\<close>; and \<^verbatim>\<open>AnyStructure\<close> is a union of 21 distinct interfaces, the same ones that the
  map has as values.
\<close>

theorem C3_concrete_structure_map:
  "length ConcreteStructureMap = 21 \<and>
   distinct (map fst ConcreteStructureMap) \<and>
   set (map fst ConcreteStructureMap) = set StructureConstant \<and>
   (\<forall>T. \<exists>c. ConcreteStructure T = Some c \<and>
      property_type (members c) ''structureType'' = Some (TTag T)) \<and>
   length AnyStructure = 21 \<and>
   distinct AnyStructure \<and>
   set AnyStructure = set (map snd ConcreteStructureMap)"
proof -
  have len: "length ConcreteStructureMap = 21"
    by (simp add: ConcreteStructureMap_def)
  have keys: "distinct (map fst ConcreteStructureMap)"
    by (simp add: ConcreteStructureMap_def)
  have all_keys: "set (map fst ConcreteStructureMap) = set StructureConstant"
    by (auto simp: ConcreteStructureMap_def StructureConstant_def BuildableStructureConstant_def)
  have tags: "\<exists>c. ConcreteStructure T = Some c \<and>
      property_type (members c) ''structureType'' = Some (TTag T)" for T
  proof -
    obtain c where c: "ConcreteStructure T = Some c"
      and p: "parent c = ExtendsStructure T \<or> parent c = ExtendsOwnedStructure T"
      using ConcreteStructure_tag[of T] by blast
    from p have "property_type (members c) ''structureType'' = Some (TTag T)"
      by (auto simp: members_structureType)
    with c show ?thesis by blast
  qed
  have len_any: "length AnyStructure = 21"
    by (simp add: AnyStructure_def AnyOwnedStructure_def)
  have dist_any: "distinct AnyStructure"
    by (simp add: AnyStructure_def AnyOwnedStructure_def)
  have same: "set AnyStructure = set (map snd ConcreteStructureMap)"
    by (auto simp: AnyStructure_def AnyOwnedStructure_def ConcreteStructureMap_def)
  from len keys all_keys tags len_any dist_any same show ?thesis by blast
qed

lemma member_names_Structure:
  "map member_name (Structure T) =
     [''prototype'', ''hits'', ''hitsMax'', ''id'', ''room'', ''structureType'', ''destroy'',
      ''isActive'', ''notifyWhenAttacked'', ''effects'', ''pos'']"
  by (simp add: Structure_def interface_extends_def RoomObject_def)

lemma member_names_OwnedStructure:
  "map member_name (OwnedStructure T) =
     [''prototype'', ''my'', ''owner'', ''room'', ''hits'', ''hitsMax'', ''id'', ''structureType'',
      ''destroy'', ''isActive'', ''notifyWhenAttacked'', ''effects'', ''pos'']"
  by (simp add: OwnedStructure_def Structure_def interface_extends_def RoomObject_def)

lemma neutral_structure_has_no_owner:
  "parent c = ExtendsStructure T \<Longrightarrow> \<not> has_member (members c) ''owner''"
  using own_members_keep_base[of c]
  by (simp add: members_def has_member_interface_extends)
     (simp add: has_member_def member_names_Structure)

text \<open>
  Claim C7, as stated, fails: the base interface \<^verbatim>\<open>Structure\<close> has no member \<^verbatim>\<open>owner\<close>. At the tag
  of roads neither \<^verbatim>\<open>Structure<STRUCTURE_ROAD>\<close> nor the concrete interface \<^verbatim>\<open>StructureRoad\<close>
  exposes it.
\<close>

theorem C7_owner_missing_from_Structure:
  "\<not> has_member (Structure STRUCTURE_ROAD) ''owner'' \<and>
   \<not> has_member (members StructureRoad) ''owner''"
proof -
  have "\<not> has_member (Structure STRUCTURE_ROAD) ''owner''"
    by (simp add: has_member_def member_names_Structure)
  moreover have "\<not> has_member (members StructureRoad) ''owner''"
    by (rule neutral_structure_has_no_owner[of _ STRUCTURE_ROAD]) simp
  ultimately show ?thesis
    by simp
qed

text \<open>
  Claim C7, amended. At every tag, \<^verbatim>\<open>Structure\<close> exposes \<^verbatim>\<open>id\<close>, \<^verbatim>\<open>hits\<close>, \<^verbatim>\<open>hitsMax\<close>, \<^verbatim>\<open>pos\<close>
  (inherited from \<^verbatim>\<open>RoomObject\<close>) and \<^verbatim>\<open>room\<close> but no \<^verbatim>\<open>owner\<close>; \<^verbatim>\<open>OwnedStructure\<close> exposes all
  of them and \<^verbatim>\<open>owner\<close>. In both, \<^verbatim>\<open>pos\<close> is a \<^verbatim>\<open>RoomPosition\<close> and \<^verbatim>\<open>room\<close> is a \<^verbatim>\<open>Room\<close> that
  is always present. The four interfaces that extend \<^verbatim>\<open>Structure\<close> directly (road, wall,
  container, portal) have no \<^verbatim>\<open>owner\<close>.
\<close>

theorem C7_structure_fields:
  "has_member (Structure T) ''id'' \<and>
   has_member (Structure T) ''hits'' \<and>
   has_member (Structure T) ''hitsMax'' \<and>
   has_member (Structure T) ''pos'' \<and>
   has_member (Structure T) ''room'' \<and>
   \<not> has_member (Structure T) ''owner'' \<and>
   has_member (OwnedStructure T) ''id'' \<and>
   has_member (OwnedStructure T) ''owner'' \<and>
   has_member (OwnedStructure T) ''hits'' \<and>
   has_member (OwnedStructure T) ''hitsMax'' \<and>
   has_member (OwnedStructure T) ''pos'' \<and>
   has_member (OwnedStructure T) ''room'' \<and>
   property_type (Structure T) ''pos'' = Some (TRef ''RoomPosition'') \<and>
   property_type (Structure T) ''room'' = Some (TRef ''Room'') \<and>
   property_type (OwnedStructure T) ''pos'' = Some (TRef ''RoomPosition'') \<and>
   property_type (OwnedStructure T) ''room'' = Some (TRef ''Room'') \<and>
   \<not> has_member (members StructureRoad) ''owner'' \<and>
   \<not> has_member (members StructureWall) ''owner'' \<and>
   \<not> has_member (members StructureContainer) ''owner'' \<and>
   \<not> has_member (members StructurePortal) ''owner''"
proof -
  have "\<not> has_member (members StructureRoad) ''owner''"
    and "\<not> has_member (members StructureWall) ''owner''"
    and "\<not> has_member (members StructureContainer) ''owner''"
    and "\<not> has_member (members StructurePortal) ''owner''"
    by (rule neutral_structure_has_no_owner, simp)+
  moreover have "property_type (Structure T) ''pos'' = Some (TRef ''RoomPosition'')"
    and "property_type (Structure T) ''room'' = Some (TRef ''Room'')"
    by (simp_all add: Structure_def interface_extends_def RoomObject_def)
  moreover have "property_type (OwnedStructure T) ''pos'' = Some (TRef ''RoomPosition'')"
    and "property_type (OwnedStructure T) ''room'' = Some (TRef ''Room'')"
    by (simp_all add: OwnedStructure_def Structure_def interface_extends_def RoomObject_def)
  ultimately show ?thesis
    by (simp add: has_member_def member_names_OwnedStructure member_names_Structure)
qed

lemma property_type_OwnedStructure_owner:
  "property_type (OwnedStructure T) ''owner'' =
     Some (if T = STRUCTURE_CONTROLLER then TUnion [TRef ''Owner'', TUndefined] else TRef ''Owner'')"
  by (simp add: OwnedStructure_def interface_extends_def)

lemma members_owner:
  "parent c = ExtendsOwnedStructure T \<Longrightarrow>
   property_type (members c) ''owner'' = property_type (OwnedStructure T) ''owner''"
  using own_members_keep_base[of c] by (simp add: members_def property_type_inherited)

lemma controller_tag_unique:
  "parent c = ExtendsOwnedStructure T \<Longrightarrow> (T = STRUCTURE_CONTROLLER) = (c = StructureController)"
  by (cases c) auto

text \<open>
  Claim C10. For a concrete interface that extends \<^verbatim>\<open>OwnedStructure<T>\<close>, the property
  \<^verbatim>\<open>owner\<close> has the type \<^verbatim>\<open>Owner | undefined\<close> when \<open>T\<close> is \<^verbatim>\<open>STRUCTURE_CONTROLLER\<close> and the type
  \<^verbatim>\<open>Owner\<close> otherwise; its type admits \<^verbatim>\<open>undefined\<close> exactly for \<^verbatim>\<open>StructureController\<close>, the only
  interface with the controller tag.
\<close>

theorem C10_owner_optional_only_for_controller:
  "parent c = ExtendsOwnedStructure T \<Longrightarrow>
   (\<exists>t. property_type (members c) ''owner'' = Some t \<and>
        t = (if T = STRUCTURE_CONTROLLER then TUnion [TRef ''Owner'', TUndefined]
             else TRef ''Owner'') \<and>
        admits_undefined t = (c = StructureController)) \<and>
   (T = STRUCTURE_CONTROLLER) = (c = StructureController)"
proof -
  assume p: "parent c = ExtendsOwnedStructure T"
  let ?t = "if T = STRUCTURE_CONTROLLER then TUnion [TRef ''Owner'', TUndefined] else TRef ''Owner''"
  have u: "(T = STRUCTURE_CONTROLLER) = (c = StructureController)"
    using p by (rule controller_tag_unique)
  have "property_type (members c) ''owner'' = Some ?t"
    using p by (simp add: members_owner property_type_OwnedStructure_owner)
  moreover have "admits_undefined ?t = (T = STRUCTURE_CONTROLLER)"
    by simp
  ultimately show ?thesis
    using u by simp
qed

text \<open>
  Claim C10 at the rampart, whose owner is always present, and at the controller, whose owner
  may be undefined.
\<close>

theorem C10_owner_witness:
  "parent StructureRampart = ExtendsOwnedStructure STRUCTURE_RAMPART \<and>
   property_type (members StructureRampart) ''owner'' = Some (TRef ''Owner'') \<and>
   parent StructureController = ExtendsOwnedStructure STRUCTURE_CONTROLLER \<and>
   property_type (members StructureController) ''owner'' =
     Some (TUnion [TRef ''Owner'', TUndefined])"
proof -
  have r: "parent StructureRampart = ExtendsOwnedStructure STRUCTURE_RAMPART" by simp
  have c: "parent StructureController = ExtendsOwnedStructure STRUCTURE_CONTROLLER" by simp
  show ?thesis
    using C10_owner_optional_only_for_controller[OF r]
      C10_owner_optional_only_for_controller[OF c] by simp
qed

section \<open>Store types\<close>

lemma RESOURCE_ENERGY_in_ResourceConstant: "RESOURCE_ENERGY \<in> set ResourceConstant"
  by (simp add: ResourceConstant_def)

lemma RESOURCE_POWER_in_ResourceConstant: "RESOURCE_POWER \<in> set ResourceConstant"
  by (simp add: ResourceConstant_def)

text \<open>
  Claim C9. For every resource constant \<open>r\<close>, the property \<^verbatim>\<open>store[r]\<close> of a \<^verbatim>\<open>Store<P, U>\<close> is
  declared: its type is \<^verbatim>\<open>number\<close> when \<open>r\<close> is in \<open>P\<close> and the literal \<^verbatim>\<open>0\<close> when it is not; in both
  cases a number type that does not admit \<^verbatim>\<open>undefined\<close>.
\<close>

theorem C9_store_index_is_number:
  "r \<in> set ResourceConstant \<Longrightarrow>
   Store_index P U r = Some (if r \<in> P then TNumber else TNumLit 0) \<and>
   is_number_type (if r \<in> P then TNumber else TNumLit 0) \<and>
   \<not> admits_undefined (if r \<in> P then TNumber else TNumLit 0)"
  by (simp add: Store_index_def intersect_properties_def mapped_type_def Exclude_def)

text \<open>
  Claim C9 at \<^verbatim>\<open>Store<RESOURCE_ENERGY, false>\<close>, the store of an extension: energy reads as a
  number, power as the literal 0.
\<close>

theorem C9_store_index_witness:
  "property_type (members StructureExtension) ''store'' = Some (TStore [RESOURCE_ENERGY] False) \<and>
   RESOURCE_ENERGY \<in> set ResourceConstant \<and>
   Store_index (set [RESOURCE_ENERGY]) False RESOURCE_ENERGY = Some TNumber \<and>
   RESOURCE_POWER \<in> set ResourceConstant \<and>
   Store_index (set [RESOURCE_ENERGY]) False RESOURCE_POWER = Some (TNumLit 0)"
proof -
  have "property_type (members StructureExtension) ''store'' = Some (TStore [RESOURCE_ENERGY] False)"
    by (simp add: members_def interface_extends_def)
  moreover have "RESOURCE_POWER \<noteq> RESOURCE_ENERGY"
    by (simp add: RESOURCE_POWER_def RESOURCE_ENERGY_def)
  ultimately show ?thesis
    using C9_store_index_is_number[OF RESOURCE_ENERGY_in_ResourceConstant, of "{RESOURCE_ENERGY}" False]
      C9_store_index_is_number[OF RESOURCE_POWER_in_ResourceConstant, of "{RESOURCE_ENERGY}" False]
      RESOURCE_ENERGY_in_ResourceConstant RESOURCE_POWER_in_ResourceConstant
    by simp
qed

text \<open>
  The declared return types of the capacity accessors. The stores of ruins and tombstones are
  unlimited; on an unlimited store \<^verbatim>\<open>getCapacity\<close> and \<^verbatim>\<open>getFreeCapacity\<close> are \<^verbatim>\<open>null\<close> at every
  argument. On a limited store the three accessors are \<^verbatim>\<open>number\<close> at a resource of the store.
  The declarations say nothing about the numbers themselves.
\<close>

lemma Ruin_Tombstone_store_unlimited:
  "property_type Ruin ''store'' = Some (TStore ResourceConstant True) \<and>
   property_type Tombstone ''store'' = Some (TStore ResourceConstant True)"
  by (simp add: Tombstone_def Ruin_def interface_extends_def StoreDefinitionUnlimited_def)

lemma unlimited_store_capacity_null:
  "getCapacity P True R = TNull \<and> getFreeCapacity P True R = TNull"
  by (simp add: getCapacity_def getFreeCapacity_def)

lemma limited_store_capacity_number:
  "r \<in> P \<Longrightarrow>
   getUsedCapacity P False (Some r) = TNumber \<and> getCapacity P False (Some r) = TNumber \<and>
   getFreeCapacity P False (Some r) = TNumber"
  by (simp add: getCapacity_def getUsedCapacity_def getFreeCapacity_def)

section \<open>Declared and documented result codes\<close>





text \<open>
  \<^verbatim>\<open>StructureController.unclaim\<close> documents the same two codes as
  \<^verbatim>\<open>StructureRampart.setPublic\<close> and is declared to return \<^verbatim>\<open>ScreepsReturnCode\<close>.
\<close>

lemma sibling_unclaim_returns_code:
  "method_return (members StructureController) ''unclaim'' = Some ScreepsReturnCode \<and>
   documented ''StructureController'' ''unclaim'' = [OK, ERR_NOT_OWNER]"
  by (simp add: members_def interface_extends_def documented_def documented_codes_def)

text \<open>
  Claim C2 at \<^verbatim>\<open>StructureRampart.setPublic\<close>: the documentation enumerates \<^verbatim>\<open>OK\<close> and
  \<^verbatim>\<open>ERR_NOT_OWNER\<close>, and the declared return type is \<^verbatim>\<open>undefined\<close>, which is not a type of
  result codes and has no code among its values.
\<close>

theorem C2_setPublic_declared_undefined:
  "method_return (members StructureRampart) ''setPublic'' = Some TUndefined \<and>
   \<not> only_codes TUndefined \<and>
   admits_undefined TUndefined \<and>
   codes_of TUndefined = [] \<and>
   documented (interface_name StructureRampart) ''setPublic'' = [OK, ERR_NOT_OWNER]"
  by (simp add: members_def interface_extends_def documented_def documented_codes_def)








end
